theory Spec2Isabelle
  imports Complex_Main "HOL-Library.Word"
begin

section \<open>The Mico reaching environment (micoenv/mico\_robot\_env.py)\<close>

text \<open>
  The numbers the environment computes are modelled as real numbers, and the one
  explicit change of precision (\<^verbatim>\<open>astype(np.float32)\<close> in \<^verbatim>\<open>state_vector\<close>) is a
  parameter \<open>f32\<close> of the model. An action is handed in by the caller: its components
  are floats, which may be infinite or NaN. A one-dimensional numpy array is a list.
\<close>

type_synonym vec = "real list"

datatype error = AssertionError | IndexError | UnsupportedObservationType

subsection \<open>Configuration (the arguments of \<^verbatim>\<open>MicoEnv.__init__\<close>)\<close>

record config =
  has_object :: bool
  target_in_the_air :: bool
  distance_threshold :: real
  height_offset :: real
  reward_type :: string
  observation_type :: string
  fixed_goal :: bool
  randomizeArm :: bool

definition n_actions :: nat where
  "n_actions = 4"

definition table_low :: vec where
  "table_low = [-0.35, -0.25, 0.05]"

definition table_high :: vec where
  "table_high = [-0.2, 0.25, 0.2]"

subsection \<open>Distance and reward\<close>

text \<open>\<^verbatim>\<open>a - b\<close> on two arrays of one shape.\<close>

definition vsub :: "vec \<Rightarrow> vec \<Rightarrow> vec" where
  "vsub a b = map2 (\<lambda>x y. x - y) a b"

text \<open>\<^verbatim>\<open>np.linalg.norm(v, axis=-1)\<close> on a one-dimensional array: the Euclidean norm.\<close>

definition linalg_norm :: "vec \<Rightarrow> real" where
  "linalg_norm v = sqrt (\<Sum>x\<leftarrow>v. x\<^sup>2)"

definition goal_distance :: "vec \<Rightarrow> vec \<Rightarrow> error + real" where
  "goal_distance goal_a goal_b =
     (if length goal_a = length goal_b
      then Inr (linalg_norm (vsub goal_a goal_b))
      else Inl AssertionError)"

text \<open>
  \<^verbatim>\<open>compute_reward\<close>: the \<^verbatim>\<open>if\<close>/\<^verbatim>\<open>elif\<close> chain has no \<^verbatim>\<open>else\<close>, so any other
  reward type falls off the end of the function and Python returns \<^verbatim>\<open>None\<close>.
\<close>

definition compute_reward :: "config \<Rightarrow> vec \<Rightarrow> vec \<Rightarrow> error + int option" where
  "compute_reward c achieved_goal desired_goal =
     (case goal_distance achieved_goal desired_goal of
        Inl e \<Rightarrow> Inl e
      | Inr d \<Rightarrow>
          if reward_type c = ''sparse''
          then Inr (Some (if d < distance_threshold c then 3 else - 1))
          else if reward_type c = ''positive''
          then Inr (Some (if d < distance_threshold c then 5 else 0))
          else Inr None)"

subsection \<open>numpy helpers\<close>

text \<open>
  \<^verbatim>\<open>np.clip(a, a_min, a_max)\<close> is \<^verbatim>\<open>np.minimum(a_max, np.maximum(a, a_min))\<close>,
  element by element. \<open>np_clip\<close> takes three arrays of one shape.
\<close>

definition np_clip :: "vec \<Rightarrow> vec \<Rightarrow> vec \<Rightarrow> vec" where
  "np_clip a a_min a_max = map2 (\<lambda>(x, lo) hi. min hi (max x lo)) (zip a a_min) a_max"

text \<open>
  An action comes from the caller, so its components are any floats: a number, an
  infinity or NaN. \<^verbatim>\<open>np.maximum\<close> and \<^verbatim>\<open>np.minimum\<close> return NaN when an argument is
  NaN, so \<^verbatim>\<open>np.clip\<close> with two scalar bounds leaves a NaN component as it is and
  brings every other component between the bounds. \<open>scaled c\<close> is the product with a
  positive constant \<open>c\<close>.
\<close>

datatype float64 = Num real | PosInf | NegInf | NaN

definition clip1 :: "real \<Rightarrow> real \<Rightarrow> float64 \<Rightarrow> float64" where
  "clip1 a_min a_max f =
     (case f of
        Num v \<Rightarrow> Num (min a_max (max v a_min))
      | PosInf \<Rightarrow> Num a_max
      | NegInf \<Rightarrow> Num (min a_max a_min)
      | NaN \<Rightarrow> NaN)"

definition np_clip_scalar :: "float64 list \<Rightarrow> real \<Rightarrow> real \<Rightarrow> float64 list" where
  "np_clip_scalar a a_min a_max = map (clip1 a_min a_max) a"

definition scaled :: "real \<Rightarrow> float64 \<Rightarrow> float64" where
  "scaled c f = (case f of Num v \<Rightarrow> Num (v * c) | PosInf \<Rightarrow> PosInf | NegInf \<Rightarrow> NegInf | NaN \<Rightarrow> NaN)"

text \<open>Python's \<^verbatim>\<open>xs[a:b]\<close> for \<open>0 \<le> a \<le> b\<close>.\<close>

definition slice :: "nat \<Rightarrow> nat \<Rightarrow> 'a list \<Rightarrow> 'a list" where
  "slice a b xs = take (b - a) (drop a xs)"

text \<open>Python's \<^verbatim>\<open>s in t\<close> on strings: \<open>s\<close> occurs in \<open>t\<close> as a contiguous run.\<close>

fun starts_with :: "string \<Rightarrow> string \<Rightarrow> bool" where
  "starts_with [] t = True"
| "starts_with (x # s) [] = False"
| "starts_with (x # s) (y # t) = (x = y \<and> starts_with s t)"

fun str_in :: "string \<Rightarrow> string \<Rightarrow> bool" where
  "str_in s [] = starts_with s []"
| "str_in s (y # t) = (starts_with s (y # t) \<or> str_in s t)"

text \<open>
  Random numbers. A generator is a stream of samples and a position in it.
  \<^verbatim>\<open>uniform(low, high, size=3)\<close> takes three unit samples \<open>u\<close> (each in \<open>[0, 1)\<close>) and
  returns \<open>low + (high - low) * u\<close>; \<^verbatim>\<open>normal(loc, scale)\<close> takes one standard normal sample
  \<open>z\<close> per component of \<open>loc\<close> and returns \<open>loc + scale * z\<close>.
\<close>

definition uniform :: "(nat \<Rightarrow> real) \<Rightarrow> nat \<Rightarrow> vec \<Rightarrow> vec \<Rightarrow> vec" where
  "uniform u i low high = map (\<lambda>k. low ! k + (high ! k - low ! k) * u (i + k)) [0, 1, 2]"

definition normal :: "(nat \<Rightarrow> real) \<Rightarrow> vec \<Rightarrow> real \<Rightarrow> vec" where
  "normal z loc scale = map (\<lambda>(k, m). m + scale * z k) (enumerate 0 loc)"

subsection \<open>The physics engine and the actuator\<close>

text \<open>
  The physics engine (pybullet) and the actuator (\<^verbatim>\<open>micoenv.Mico\<close>) are outside this
  file. Of the engine's state the model keeps what the environment reads back: the base
  position each body was created with, indexed by body id, the world position and linear
  velocity of arm link 6 and the positions of joints 7 and 9. Calls that only change how
  the scene looks (colours, textures, camera, light), a shape's size or a body's
  orientation are left out: nothing modelled here reads them.
\<close>

record phys =
  bodies :: "vec list"
  link6_pos :: vec
  link6_vel :: vec
  joint7 :: real
  joint9 :: real

record arm =
  goalPosition :: vec
  goalGripper :: real
  is_grasping :: bool

text \<open>
  What the environment calls and this file does not define is a parameter: the unit
  samples of \<^verbatim>\<open>self.np_random\<close>, the standard normal samples that \<^verbatim>\<open>np.random.normal\<close>
  hands to \<^verbatim>\<open>_sample_goal\<close> and to \<^verbatim>\<open>init_arm\<close>, the actuator's constructor and
  methods, and the engine's \<^verbatim>\<open>restoreState\<close> (\<open>None\<close> when it raises).
\<close>

record ext =
  np_random :: "nat \<Rightarrow> real"
  goal_noise :: "nat \<Rightarrow> real"
  arm_noise :: "nat \<Rightarrow> real"
  Mico :: "phys \<Rightarrow> vec \<Rightarrow> vec \<Rightarrow> vec \<Rightarrow> bool \<Rightarrow> arm \<times> phys"
  init_gripper :: "arm \<Rightarrow> phys \<Rightarrow> arm \<times> phys"
  set_graspable_object :: "arm \<Rightarrow> nat \<Rightarrow> real \<Rightarrow> arm"
  apply_action :: "arm \<Rightarrow> phys \<Rightarrow> float64 list \<Rightarrow> arm \<times> phys"
  restoreState :: "string \<Rightarrow> phys \<Rightarrow> phys option"

definition resetSimulation :: "phys \<Rightarrow> phys" where
  "resetSimulation ph = ph\<lparr>bodies := []\<rparr>"

text \<open>\<^verbatim>\<open>createMultiBody\<close> and \<^verbatim>\<open>loadURDF\<close>: a new body, whose id is the next free one.\<close>

definition createMultiBody :: "phys \<Rightarrow> vec \<Rightarrow> phys \<times> nat" where
  "createMultiBody ph basePosition = (ph\<lparr>bodies := bodies ph @ [basePosition]\<rparr>, length (bodies ph))"

subsection \<open>The environment\<close>

record env =
  cfg :: config
  p :: phys
  arm :: arm
  goal :: vec
  body :: nat
  visualizeTarget :: nat
  np_random_pos :: nat
  originalObjPosition :: vec
  originalGoalPosition :: vec
  originalGripPosition :: vec
  stdout :: "string list"

subsection \<open>Actions\<close>

text \<open>
  \<^verbatim>\<open>_set_action\<close> works on numpy arrays, which are objects: the caller's array and the
  arrays made on the way live in a store, a list of arrays indexed by address, and a new
  array takes the next free address. The actuator is handed the last array made.
\<close>

type_synonym heap = "float64 list list"

definition alloc :: "heap \<Rightarrow> float64 list \<Rightarrow> heap \<times> nat" where
  "alloc h v = (h @ [v], length h)"

definition set_action :: "ext \<Rightarrow> heap \<Rightarrow> arm \<times> phys \<Rightarrow> nat \<Rightarrow> error + heap \<times> arm \<times> phys" where
  "set_action x h ap action =
     (if length (h ! action) \<noteq> n_actions then Inl AssertionError
      else
        let (h1, action1) = alloc h (np_clip_scalar (h ! action) (- 1) 1);
            h2 = h1[action1 := (h1 ! action1)[3 := Num 0]];
            (h3, copied) = alloc h2 (h2 ! action1);
            (h4, action2) = alloc h3 (map (scaled 0.05) (h3 ! copied))
        in Inr (h4, apply_action x (fst ap) (snd ap) (h4 ! action2)))"

subsection \<open>Observations\<close>

definition state_vector :: "(real \<Rightarrow> real) \<Rightarrow> env \<Rightarrow> vec" where
  "state_vector f32 e =
     (let grip_velp = link6_vel (p e);
          grip_pos = link6_pos (p e);
          obj_pos = (if has_object (cfg e) then bodies (p e) ! body e else [0, 0, 0]);
          object_rel_pos = (if has_object (cfg e) then vsub obj_pos grip_pos else [0, 0, 0]);
          gripper_state = [joint7 (p e), joint9 (p e)];
          grasping = (if is_grasping (arm e) then 1 else 0)
      in map f32 (grip_pos @ goal e @ gripper_state @ obj_pos @ object_rel_pos
                  @ goalPosition (arm e) @ [goalGripper (arm e)] @ grip_velp @ [grasping]))"

definition get_state :: "(real \<Rightarrow> real) \<Rightarrow> env \<Rightarrow> vec" where
  "get_state f32 e = state_vector f32 e"

text \<open>
  A rendered image is a numpy array of bytes: its shape and its buffer in row-major
  order. \<open>channel img k\<close> is \<^verbatim>\<open>img[:, :, k]\<close> on a three-dimensional array, which raises
  IndexError when \<open>k\<close> is not below the size of the last axis. An array of another rank
  does not reach it: \<^verbatim>\<open>_get_obs\<close> asserts the shape (84, 84, 3) first.
\<close>

record image =
  shape :: "nat list"
  buf :: "8 word list"

definition channel :: "image \<Rightarrow> nat \<Rightarrow> error + 8 word list list" where
  "channel img k =
     (case shape img of
        [h, w, c] \<Rightarrow>
          if k < c
          then Inr (map (\<lambda>i. map (\<lambda>j. buf img ! ((i * w + j) * c + k)) [0..<w]) [0..<h])
          else Inl IndexError
      | _ \<Rightarrow> Inl IndexError)"

datatype observation =
    LowDim vec
  | Pixels image
  | Depth "8 word list list"
  | Composed vec image

definition get_obs :: "(real \<Rightarrow> real) \<Rightarrow> (env \<Rightarrow> image) \<Rightarrow> env \<Rightarrow> error + observation" where
  "get_obs f32 render e =
     (let low_dim = state_vector f32 e;
          ot = observation_type (cfg e);
          pixels = (if str_in ''pixels'' ot \<or> str_in ''composed'' ot then Some (render e) else None)
      in if pixels \<noteq> None \<and> shape (the pixels) \<noteq> [84, 84, 3] then Inl AssertionError
         else if ot = ''low_dim'' then Inr (LowDim low_dim)
         else if ot = ''pixels'' then Inr (Pixels (the pixels))
         else if ot = ''pixels_depth'' then map_sum id Depth (channel (the pixels) 3)
         else if ot = ''composed'' then Inr (Composed low_dim (the pixels))
         else Inl UnsupportedObservationType)"

subsection \<open>Reset\<close>

definition sample_goal :: "ext \<Rightarrow> config \<Rightarrow> nat \<Rightarrow> vec \<times> nat" where
  "sample_goal x c i =
     (if fixed_goal c
      then (if target_in_the_air c
            then ([- 0.4, 0.2, 0.3], i)
            else (normal (goal_noise x) [- 0.3, 0.2] 0.05 @ [0.03], i))
      else
        let g = (uniform (np_random x) i table_low table_high)[2 := 0.03];
            i1 = i + 3
        in if target_in_the_air c
           then (if np_random x i1 < 1
                 then (g[2 := g ! 2 + (0 + (table_high ! 2 - 0) * np_random x (i1 + 1))], i1 + 2)
                 else (g, i1 + 1))
           else (g, i1))"

text \<open>
  The rejection loop of \<^verbatim>\<open>_reset_sim\<close>: \<open>obj_pos\<close> is the current draw and \<open>i\<close> the
  position of \<^verbatim>\<open>self.np_random\<close>. It returns \<open>None\<close> when the loop never ends.
\<close>

partial_function (option)
  resample :: "(nat \<Rightarrow> real) \<Rightarrow> vec \<Rightarrow> real \<Rightarrow> vec \<Rightarrow> vec \<Rightarrow> nat \<Rightarrow> (error + vec \<times> nat) option"
where
  "resample u high h g obj_pos i =
     (case goal_distance obj_pos g of
        Inl err \<Rightarrow> Some (Inl err)
      | Inr d \<Rightarrow>
          if d < 0.1
          then resample u high h g ((uniform u i table_low high)[2 := h]) (i + 3)
          else Some (Inr (obj_pos, i)))"

text \<open>
  \<^verbatim>\<open>init_env\<close> loads the wall and the ground plane; \<^verbatim>\<open>init_arm\<close> computes the spawn
  position, constructs the actuator (which receives the randomized description when
  arm randomization is on), adds the two mount blocks and initializes the gripper.
\<close>

definition init_env :: "phys \<Rightarrow> phys" where
  "init_env ph =
     (let (ph1, wallId) = createMultiBody ph [0.697, 0, 0];
          (ph2, planeId) = createMultiBody ph1 [0, 0, 0]
      in ph2)"

definition spawn_pos :: "ext \<Rightarrow> config \<Rightarrow> vec" where
  "spawn_pos x c =
     (if randomizeArm c
      then np_clip [0, 0, 0.03] [0, 0, 0.07] (normal (arm_noise x) [0, 0, 0.05] 0.02)
      else [0, 0, 0])"

definition init_arm :: "ext \<Rightarrow> config \<Rightarrow> phys \<Rightarrow> arm \<times> phys" where
  "init_arm x c ph =
     (let reach_low = (map (\<lambda>v. v - 0.2) table_low)[2 := 0.05];
          reach_high = map (\<lambda>v. v + 0.2) table_high;
          (a, ph1) = Mico x ph (spawn_pos x c) reach_low reach_high (randomizeArm c);
          (ph2, mount1) = createMultiBody ph1 [0, 0, 0];
          (ph3, mount2) = createMultiBody ph2 [0, 0, 0]
      in init_gripper x a ph3)"

text \<open>
  The second half of \<^verbatim>\<open>_reset_sim\<close>, from \<^verbatim>\<open>self.p.resetSimulation()\<close> on, which both
  branches of the first half reach with \<^verbatim>\<open>self.goal\<close> set. A file name that is
  \<^verbatim>\<open>None\<close> or empty is false in \<^verbatim>\<open>if state_file:\<close>; the bare \<^verbatim>\<open>except:\<close> turns
  whatever \<^verbatim>\<open>restoreState\<close> raises into the printed warning and the result False.
\<close>

definition build_scene ::
  "ext \<Rightarrow> env \<Rightarrow> vec \<Rightarrow> (vec \<times> real) option \<Rightarrow> real \<Rightarrow> string option \<Rightarrow> bool \<times> env" where
  "build_scene x e obj_pos arm_goal should_be_grasping state_file =
     (let ph0 = resetSimulation (p e);
          (ph1, target) = createMultiBody ph0 (goal e);
          (a, ph2) = init_arm x (cfg e) (init_env ph1);
          e1 = e\<lparr>visualizeTarget := target, arm := a, p := ph2\<rparr>;
          e2 = (if has_object (cfg e)
                then let (ph3, b) = createMultiBody ph2 obj_pos
                     in e1\<lparr>p := ph3, body := b, originalObjPosition := obj_pos,
                           arm := set_graspable_object x a b should_be_grasping\<rparr>
                else e1);
          restored = (case state_file of
                        None \<Rightarrow> Some (p e2)
                      | Some fn \<Rightarrow> if fn = [] then Some (p e2) else restoreState x fn (p e2))
      in case restored of
           None \<Rightarrow> (False, e2\<lparr>stdout := stdout e2 @ [''Warning: state reset failed'']\<rparr>)
         | Some ph4 \<Rightarrow>
             let e3 = e2\<lparr>p := ph4\<rparr>;
                 e4 = (case arm_goal of
                         None \<Rightarrow> e3
                       | Some (arm_goal_pos, arm_goal_grip) \<Rightarrow>
                           e3\<lparr>arm := (arm e3)\<lparr>goalPosition := arm_goal_pos,
                                                goalGripper := arm_goal_grip\<rparr>\<rparr>)
             in (True, e4\<lparr>originalGoalPosition := goal e4,
                          originalGripPosition := link6_pos (p e4)\<rparr>))"

text \<open>
  The sampling branch of the first half of \<^verbatim>\<open>_reset_sim\<close> (no explicit state): the goal,
  the object position that leaves the rejection loop and the position of
  \<^verbatim>\<open>self.np_random\<close> after it.
\<close>

definition sample_scene :: "ext \<Rightarrow> env \<Rightarrow> (error + vec \<times> vec \<times> nat) option" where
  "sample_scene x e =
     (let high = (if fixed_goal (cfg e) then table_high[1 := 0.0] else table_high);
          (g, i1) = sample_goal x (cfg e) (np_random_pos e);
          obj_pos = (uniform (np_random x) i1 table_low high)[2 := height_offset (cfg e)]
      in case resample (np_random x) high (height_offset (cfg e)) g obj_pos (i1 + 3) of
           None \<Rightarrow> None
         | Some (Inl err) \<Rightarrow> Some (Inl err)
         | Some (Inr (obj_pos', i2)) \<Rightarrow> Some (Inr (g, obj_pos', i2)))"

text \<open>
  \<^verbatim>\<open>_reset_sim\<close>. An explicit state of another shape than (22,) fails the assertion; of
  a state of 22 elements the source keeps the slices 3:6 (goal), 8:11 (object position),
  14:17 and 17 (the arm's goal) and 21 (grasping). The sampling branch passes
  \<^verbatim>\<open>should_be_grasping = False\<close>, which is the number 0. The result is \<open>None\<close> when
  the rejection loop never ends.
\<close>

definition reset_sim ::
  "ext \<Rightarrow> env \<Rightarrow> vec option \<Rightarrow> string option \<Rightarrow> (error + bool \<times> env) option" where
  "reset_sim x e state state_file =
     (case state of
        Some st \<Rightarrow>
          if length st \<noteq> 22 then Some (Inl AssertionError)
          else Some (Inr (build_scene x (e\<lparr>goal := slice 3 6 st\<rparr>) (slice 8 11 st)
                            (Some (slice 14 17 st, st ! 17)) (st ! 21) state_file))
      | None \<Rightarrow>
          (case sample_scene x e of
             None \<Rightarrow> None
           | Some (Inl err) \<Rightarrow> Some (Inl err)
           | Some (Inr (g, obj_pos, i)) \<Rightarrow>
               Some (Inr (build_scene x (e\<lparr>goal := g, np_random_pos := i\<rparr>) obj_pos
                            None 0 state_file))))"

subsection \<open>Vocabulary of the properties\<close>

text \<open>
  The states \<^verbatim>\<open>state_vector\<close> is called on: the engine answers position and velocity
  queries with three numbers, the goal and the actuator's goal position are 3-vectors,
  and with an object its body exists.
\<close>

definition wf_env :: "env \<Rightarrow> bool" where
  "wf_env e \<longleftrightarrow>
     length (link6_pos (p e)) = 3 \<and> length (link6_vel (p e)) = 3 \<and>
     length (goal e) = 3 \<and> length (goalPosition (arm e)) = 3 \<and>
     (has_object (cfg e) \<longrightarrow>
        body e < length (bodies (p e)) \<and> length (bodies (p e) ! body e) = 3)"

text \<open>
  The object positions a sampling reset draws, in order: \<open>draw x e 0\<close> is the one drawn
  before the loop, \<open>draw x e (Suc k)\<close> the one drawn in the loop's \<open>k\<close>-th round.
\<close>

definition draw :: "ext \<Rightarrow> env \<Rightarrow> nat \<Rightarrow> vec" where
  "draw x e k =
     (let high = (if fixed_goal (cfg e) then table_high[1 := 0.0] else table_high);
          i1 = snd (sample_goal x (cfg e) (np_random_pos e))
      in (uniform (np_random x) (i1 + 3 * k) table_low high)[2 := height_offset (cfg e)])"

text \<open>A float that is a number between two bounds.\<close>

definition between :: "real \<Rightarrow> real \<Rightarrow> float64 \<Rightarrow> bool" where
  "between lo hi f = (case f of Num v \<Rightarrow> lo \<le> v \<and> v \<le> hi | _ \<Rightarrow> False)"

text \<open>
  The environment when \<^verbatim>\<open>_reset_sim\<close> reaches \<^verbatim>\<open>if state_file:\<close>: the scene is rebuilt
  and the object placed. \<open>restore_point x e state\<close> is the engine state of that moment
  in the reset of \<open>e\<close> with \<open>state\<close>, the one \<^verbatim>\<open>restoreState\<close> is called in; there is
  none when the reset does not get that far.
\<close>

definition placed :: "ext \<Rightarrow> env \<Rightarrow> vec \<Rightarrow> real \<Rightarrow> env" where
  "placed x e obj_pos should_be_grasping =
     (let ph0 = resetSimulation (p e);
          (ph1, target) = createMultiBody ph0 (goal e);
          (a, ph2) = init_arm x (cfg e) (init_env ph1);
          e1 = e\<lparr>visualizeTarget := target, arm := a, p := ph2\<rparr>
      in if has_object (cfg e)
         then let (ph3, b) = createMultiBody ph2 obj_pos
              in e1\<lparr>p := ph3, body := b, originalObjPosition := obj_pos,
                    arm := set_graspable_object x a b should_be_grasping\<rparr>
         else e1)"

definition restore_point :: "ext \<Rightarrow> env \<Rightarrow> vec option \<Rightarrow> phys option" where
  "restore_point x e state =
     (case state of
        Some st \<Rightarrow>
          if length st \<noteq> 22 then None
          else Some (p (placed x (e\<lparr>goal := slice 3 6 st\<rparr>) (slice 8 11 st) (st ! 21)))
      | None \<Rightarrow>
          (case sample_scene x e of
             Some (Inr (g, obj_pos, i)) \<Rightarrow>
               Some (p (placed x (e\<lparr>goal := g, np_random_pos := i\<rparr>) obj_pos 0))
           | _ \<Rightarrow> None))"

text \<open>The position a reset gave the object, when the reset returned.\<close>

definition spawned :: "(error + bool \<times> env) option \<Rightarrow> vec option" where
  "spawned r = (case r of Some (Inr (ok, e)) \<Rightarrow> Some (originalObjPosition e) | _ \<Rightarrow> None)"

text \<open>The constructor's default arguments.\<close>

definition default_config :: config where
  "default_config =
     \<lparr>has_object = True, target_in_the_air = True, distance_threshold = 0.1,
      height_offset = 0.06, reward_type = ''positive'', observation_type = ''low_dim'',
      fixed_goal = True, randomizeArm = False\<rparr>"

subsection \<open>Example inputs\<close>

text \<open>
  An actuator that starts with its goal at the gripper, an engine that puts the gripper
  at a fixed point, a generator that always returns one half, and a snapshot that
  cannot be restored.
\<close>

definition arm0 :: arm where
  "arm0 = \<lparr>goalPosition = [0, 0, 0.5], goalGripper = 0, is_grasping = False\<rparr>"

definition phys0 :: phys where
  "phys0 = \<lparr>bodies = [], link6_pos = [0, 0, 0.5], link6_vel = [0, 0, 0],
            joint7 = 0, joint9 = 0\<rparr>"

definition ext0 :: ext where
  "ext0 =
     \<lparr>np_random = (\<lambda>k. 1 / 2), goal_noise = (\<lambda>k. 0), arm_noise = (\<lambda>k. 0),
      Mico = (\<lambda>ph sp lo hi r. (arm0, ph)),
      init_gripper = (\<lambda>a ph. (a, ph)),
      set_graspable_object = (\<lambda>a b g. a),
      apply_action = (\<lambda>a ph v. (a, ph)),
      restoreState = (\<lambda>fn ph. None)\<rparr>"

definition env0 :: env where
  "env0 =
     \<lparr>cfg = default_config, p = phys0, arm = arm0, goal = [0, 0, 0], body = 0,
      visualizeTarget = 0, np_random_pos = 0, originalObjPosition = [],
      originalGoalPosition = [], originalGripPosition = [], stdout = []\<rparr>"

text \<open>An environment after a reset: the goal marker is body 0, the object body 5.\<close>

definition bodies1 :: "vec list" where
  "bodies1 = [- 0.4, 0.2, 0.3] # [0.697, 0, 0] # [0, 0, 0] # [0, 0, 0] # [0, 0, 0]
             # [- 0.275, - 0.125, 0.06] # []"

definition env1 :: env where
  "env1 = env0\<lparr>p := phys0\<lparr>bodies := bodies1\<rparr>, goal := [- 0.4, 0.2, 0.3], body := 5\<rparr>"

text \<open>
  An action out of range in three components, an action of the wrong shape and an
  action with a NaN.
\<close>

definition action0 :: "float64 list" where
  "action0 = [PosInf, Num (- 0.5), Num (- 7), Num 2]"

definition action_short :: "float64 list" where
  "action_short = [Num 3, Num (- 0.5), Num (- 7)]"

definition action_nan :: "float64 list" where
  "action_nan = [NaN, Num 0.5, Num 1, Num 2]"

text \<open>An engine that cannot restore a snapshot into a scene of six bodies.\<close>

definition ext2 :: ext where
  "ext2 = ext0\<lparr>restoreState := (\<lambda>fn ph. if length (bodies ph) = 6 then None else Some ph)\<rparr>"

text \<open>
  A generator whose first six samples are one half and whose later samples are nine
  tenths, and an environment whose goal is sampled on the table.
\<close>

definition ext1 :: ext where
  "ext1 = ext0\<lparr>np_random := (\<lambda>k. if k < 6 then 1 / 2 else 9 / 10)\<rparr>"

definition env2 :: env where
  "env2 = env0\<lparr>cfg := default_config\<lparr>fixed_goal := False, target_in_the_air := False\<rparr>\<rparr>"

section \<open>Properties\<close>

subsection \<open>Arithmetic of the distance\<close>

lemma sum_squares_nonneg: "0 \<le> (\<Sum>x\<leftarrow>v. x\<^sup>2)" for v :: vec
  by (induction v) simp_all

lemma linalg_norm_less_iff: "linalg_norm v < t \<longleftrightarrow> 0 < t \<and> (\<Sum>x\<leftarrow>v. x\<^sup>2) < t\<^sup>2"
proof (cases "0 < t")
  case True
  then have "sqrt (t\<^sup>2) = t"
    by simp
  then have "sqrt (\<Sum>x\<leftarrow>v. x\<^sup>2) < t \<longleftrightarrow> (\<Sum>x\<leftarrow>v. x\<^sup>2) < t\<^sup>2"
    using real_sqrt_less_iff [of "\<Sum>x\<leftarrow>v. x\<^sup>2" "t\<^sup>2"] by simp
  then show ?thesis
    using True by (simp add: linalg_norm_def)
next
  case False
  have "0 \<le> linalg_norm v"
    unfolding linalg_norm_def using sum_squares_nonneg by simp
  then show ?thesis
    using False by auto
qed

lemma linalg_norm_times_less_iff:
  "0 < c \<Longrightarrow> linalg_norm v * c < t \<longleftrightarrow> 0 < t \<and> (\<Sum>x\<leftarrow>v. x\<^sup>2) * c\<^sup>2 < t\<^sup>2"
proof -
  assume c: "0 < c"
  have "linalg_norm v * c < t \<longleftrightarrow> linalg_norm v < t / c"
    using c by (simp add: pos_less_divide_eq)
  also have "\<dots> \<longleftrightarrow> 0 < t / c \<and> (\<Sum>x\<leftarrow>v. x\<^sup>2) < (t / c)\<^sup>2"
    by (rule linalg_norm_less_iff)
  also have "\<dots> \<longleftrightarrow> 0 < t \<and> (\<Sum>x\<leftarrow>v. x\<^sup>2) * c\<^sup>2 < t\<^sup>2"
    using c by (simp add: power_divide pos_less_divide_eq zero_less_divide_iff)
  finally show ?thesis .
qed

subsection \<open>Reward values\<close>

text \<open>
  Claim C2. For two position vectors of one shape, \<^verbatim>\<open>compute_reward\<close> with reward type
  "sparse" returns 3 when their Euclidean distance is below the distance threshold and
  -1 otherwise; with reward type "positive" it returns 5 below the threshold and 0
  otherwise. No other value is returned in these two modes.
\<close>

theorem compute_reward_two_values:
  "length achieved_goal = length desired_goal \<Longrightarrow>
   (reward_type c = ''sparse'' \<longrightarrow>
      compute_reward c achieved_goal desired_goal =
        Inr (Some (if linalg_norm (vsub achieved_goal desired_goal) < distance_threshold c
                   then 3 else - 1))) \<and>
   (reward_type c = ''positive'' \<longrightarrow>
      compute_reward c achieved_goal desired_goal =
        Inr (Some (if linalg_norm (vsub achieved_goal desired_goal) < distance_threshold c
                   then 5 else 0)))"
  by (simp add: compute_reward_def goal_distance_def)

text \<open>
  Scenario A of the specification (object at (0, 0, 0.06), goal at (0, 0, 0.2), threshold
  0.1, sparse reward) and scenario B (object on the goal, positive reward).
\<close>

theorem compute_reward_two_values_witness:
  "length [0, 0, 0.06 :: real] = length [0, 0, 0.2 :: real] \<and>
   compute_reward (default_config\<lparr>reward_type := ''sparse''\<rparr>) [0, 0, 0.06] [0, 0, 0.2]
     = Inr (Some (- 1)) \<and>
   compute_reward default_config [0, 0, 0.2] [0, 0, 0.2] = Inr (Some 5)"
  using compute_reward_two_values
      [of "[0, 0, 0.06]" "[0, 0, 0.2]" "default_config\<lparr>reward_type := ''sparse''\<rparr>"]
    compute_reward_two_values [of "[0, 0, 0.2]" "[0, 0, 0.2]" default_config]
  by (simp add: default_config_def linalg_norm_less_iff linalg_norm_times_less_iff vsub_def
      power2_eq_square)

subsection \<open>Actions\<close>

lemma clip1_number:
  "f \<noteq> NaN \<Longrightarrow> \<exists>v. clip1 (- 1) 1 f = Num v \<and> - 1 \<le> v \<and> v \<le> 1"
  by (cases f) (simp_all add: clip1_def)

lemma clip1_NaN: "clip1 a_min a_max NaN = NaN"
  by (simp add: clip1_def)

text \<open>The three arrays \<^verbatim>\<open>_set_action\<close> makes, and what it hands to the actuator.\<close>

lemma set_action_eq:
  "length (h ! action) = 4 \<Longrightarrow>
   set_action x h (a, ph) action =
     Inr (h @ [(np_clip_scalar (h ! action) (- 1) 1)[3 := Num 0],
               (np_clip_scalar (h ! action) (- 1) 1)[3 := Num 0],
               map (scaled 0.05) ((np_clip_scalar (h ! action) (- 1) 1)[3 := Num 0])],
          apply_action x a ph
            (map (scaled 0.05) ((np_clip_scalar (h ! action) (- 1) 1)[3 := Num 0])))"
  by (simp add: set_action_def n_actions_def alloc_def Let_def nth_append)

text \<open>
  Claim C5 says that for every action of shape (4,) each of the first three components
  the actuator receives lies in [-0.05, 0.05]. The action (NaN, 0.5, 1, 2) reaches the
  actuator as (NaN, 0.025, 0.05, 0), whose first component is in no interval.
\<close>

theorem set_action_nan_counterexample:
  "set_action ext0 [action_nan] (arm0, phys0) 0 =
     Inr ([action_nan, [NaN, Num 0.5, Num 1, Num 0], [NaN, Num 0.5, Num 1, Num 0],
           [NaN, Num 0.025, Num 0.05, Num 0]],
          apply_action ext0 arm0 phys0 [NaN, Num 0.025, Num 0.05, Num 0]) \<and>
   \<not> between (- 0.05) 0.05 ([NaN, Num 0.025, Num 0.05, Num 0] ! 0)"
proof -
  have "length ([action_nan] ! 0) = 4"
    by (simp add: action_nan_def)
  from set_action_eq [OF this, of ext0 arm0 phys0] show ?thesis
    by (simp add: np_clip_scalar_def clip1_def scaled_def between_def action_nan_def)
qed

text \<open>
  Claim C5, amended. For an action of shape (4,), \<^verbatim>\<open>_set_action\<close> clips every component
  to [-1, 1], sets the fourth component to 0, multiplies by 0.05 and calls the
  actuator's \<^verbatim>\<open>apply_action\<close> with exactly that vector: its fourth component is 0 for
  every input, and each of the first three is NaN when the action's component is NaN
  and lies in [-0.05, 0.05] otherwise.
\<close>

theorem set_action_delegates:
  "action < length h \<Longrightarrow> length (h ! action) = 4 \<Longrightarrow>
   \<exists>h' v. set_action x h (a, ph) action = Inr (h', apply_action x a ph v) \<and>
     v = map (scaled 0.05) ((np_clip_scalar (h ! action) (- 1) 1)[3 := Num 0]) \<and>
     length v = 4 \<and> v ! 3 = Num 0 \<and>
     (\<forall>k<3. if h ! action ! k = NaN then v ! k = NaN else between (- 0.05) 0.05 (v ! k))"
proof -
  assume len: "length (h ! action) = 4"
  let ?c = "np_clip_scalar (h ! action) (- 1) 1"
  let ?v = "map (scaled 0.05) (?c[3 := Num 0])"
  have lc: "length ?c = 4"
    using len by (simp add: np_clip_scalar_def)
  have v3: "?v ! 3 = Num 0"
    using lc by (simp add: scaled_def)
  have comp: "\<forall>k<3. if h ! action ! k = NaN then ?v ! k = NaN
                      else between (- 0.05) 0.05 (?v ! k)"
  proof (intro allI impI)
    fix k :: nat
    assume k: "k < 3"
    then have vk: "?v ! k = scaled 0.05 (clip1 (- 1) 1 (h ! action ! k))"
      using len lc by (simp add: np_clip_scalar_def)
    show "if h ! action ! k = NaN then ?v ! k = NaN else between (- 0.05) 0.05 (?v ! k)"
    proof (cases "h ! action ! k = NaN")
      case True
      then show ?thesis
        using vk by (simp add: clip1_NaN scaled_def)
    next
      case False
      from clip1_number [OF this] obtain w where
        "clip1 (- 1) 1 (h ! action ! k) = Num w" "- 1 \<le> w" "w \<le> 1"
        by blast
      then show ?thesis
        using vk False by (simp add: scaled_def between_def)
    qed
  qed
  show ?thesis
    using set_action_eq [OF len, of x a ph] lc v3 comp by auto
qed

text \<open>The action (inf, -0.5, -7, 2) reaches the actuator as (0.05, -0.025, -0.05, 0).\<close>

theorem set_action_delegates_witness:
  "(0::nat) < length [action0] \<and> length ([action0] ! 0) = 4 \<and>
   set_action ext0 [action0] (arm0, phys0) 0 =
     Inr ([action0, [Num 1, Num (- 0.5), Num (- 1), Num 0],
           [Num 1, Num (- 0.5), Num (- 1), Num 0],
           [Num 0.05, Num (- 0.025), Num (- 0.05), Num 0]],
          apply_action ext0 arm0 phys0 [Num 0.05, Num (- 0.025), Num (- 0.05), Num 0])"
  using set_action_delegates [of 0 "[action0]" ext0 arm0 phys0]
  by (auto simp add: np_clip_scalar_def clip1_def scaled_def action0_def set_action_eq)

text \<open>
  Claim C10. \<^verbatim>\<open>_set_action\<close> never changes the caller's action array: when the shape
  is (4,) it returns, and the caller's array, like every array that existed before the
  call, holds the values it held before; when the shape is wrong the assertion fails
  before any array is written.
\<close>

theorem set_action_keeps_callers_array:
  "action < length h \<Longrightarrow>
   (length (h ! action) = 4 \<longrightarrow>
      (\<exists>h' ap'. set_action x h ap action = Inr (h', ap') \<and>
         h' ! action = h ! action \<and> take (length h) h' = h)) \<and>
   (length (h ! action) \<noteq> 4 \<longrightarrow> set_action x h ap action = Inl AssertionError)"
proof (cases ap)
  case (Pair a ph)
  assume "action < length h"
  then show ?thesis
    using Pair set_action_eq [of h action x a ph]
    by (auto simp add: nth_append set_action_def n_actions_def)
qed

theorem set_action_keeps_callers_array_witness:
  "(0::nat) < length [action0] \<and>
   fst (projr (set_action ext0 [action0] (arm0, phys0) 0)) ! 0 = action0 \<and>
   set_action ext0 [action_short] (arm0, phys0) 0 = Inl AssertionError"
  using set_action_keeps_callers_array [of 0 "[action0]" ext0 "(arm0, phys0)"]
    set_action_keeps_callers_array [of 0 "[action_short]" ext0 "(arm0, phys0)"]
  by (auto simp add: action0_def action_short_def)

subsection \<open>The state vector\<close>

lemma state_vector_concat:
  "state_vector f32 e =
     map f32 (link6_pos (p e) @ goal e @ [joint7 (p e), joint9 (p e)]
       @ (if has_object (cfg e) then bodies (p e) ! body e else [0, 0, 0])
       @ (if has_object (cfg e) then vsub (bodies (p e) ! body e) (link6_pos (p e))
          else [0, 0, 0])
       @ goalPosition (arm e) @ [goalGripper (arm e)] @ link6_vel (p e)
       @ [if is_grasping (arm e) then 1 else 0])"
  by (simp add: state_vector_def Let_def)

lemma layout_22:
  fixes a :: "'a list"
  assumes "length a = 3" "length b = 3" "length c = 2" "length d = 3" "length r = 3"
    "length f = 3" "length v = 3"
  shows "length (a @ b @ c @ d @ r @ f @ [g] @ v @ [w]) = 22"
    and "slice 0 3 (a @ b @ c @ d @ r @ f @ [g] @ v @ [w]) = a"
    and "slice 3 6 (a @ b @ c @ d @ r @ f @ [g] @ v @ [w]) = b"
    and "slice 6 8 (a @ b @ c @ d @ r @ f @ [g] @ v @ [w]) = c"
    and "slice 8 11 (a @ b @ c @ d @ r @ f @ [g] @ v @ [w]) = d"
    and "slice 11 14 (a @ b @ c @ d @ r @ f @ [g] @ v @ [w]) = r"
    and "slice 14 17 (a @ b @ c @ d @ r @ f @ [g] @ v @ [w]) = f"
    and "(a @ b @ c @ d @ r @ f @ [g] @ v @ [w]) ! 17 = g"
    and "slice 18 21 (a @ b @ c @ d @ r @ f @ [g] @ v @ [w]) = v"
    and "(a @ b @ c @ d @ r @ f @ [g] @ v @ [w]) ! 21 = w"
  using assms by (simp_all add: slice_def nth_append)

lemma vsub_length: "length a = length b \<Longrightarrow> length (vsub a b) = length a"
  by (simp add: vsub_def)

text \<open>The fields of the state vector, by position.\<close>

lemma state_vector_fields:
  "wf_env e \<Longrightarrow>
   length (state_vector f32 e) = 22 \<and> get_state f32 e = state_vector f32 e \<and>
   slice 0 3 (state_vector f32 e) = map f32 (link6_pos (p e)) \<and>
   slice 3 6 (state_vector f32 e) = map f32 (goal e) \<and>
   slice 6 8 (state_vector f32 e) = map f32 [joint7 (p e), joint9 (p e)] \<and>
   slice 8 11 (state_vector f32 e) =
     map f32 (if has_object (cfg e) then bodies (p e) ! body e else [0, 0, 0]) \<and>
   slice 11 14 (state_vector f32 e) =
     map f32 (if has_object (cfg e) then vsub (bodies (p e) ! body e) (link6_pos (p e))
              else [0, 0, 0]) \<and>
   slice 14 17 (state_vector f32 e) = map f32 (goalPosition (arm e)) \<and>
   state_vector f32 e ! 17 = f32 (goalGripper (arm e)) \<and>
   slice 18 21 (state_vector f32 e) = map f32 (link6_vel (p e)) \<and>
   state_vector f32 e ! 21 = f32 (if is_grasping (arm e) then 1 else 0)"
proof -
  assume wf: "wf_env e"
  let ?d = "if has_object (cfg e) then bodies (p e) ! body e else [0, 0, 0]"
  let ?r = "if has_object (cfg e) then vsub (bodies (p e) ! body e) (link6_pos (p e))
            else [0, 0, 0]"
  have sv: "state_vector f32 e =
      map f32 (link6_pos (p e)) @ map f32 (goal e) @ map f32 [joint7 (p e), joint9 (p e)]
      @ map f32 ?d @ map f32 ?r @ map f32 (goalPosition (arm e))
      @ [f32 (goalGripper (arm e))] @ map f32 (link6_vel (p e))
      @ [f32 (if is_grasping (arm e) then 1 else 0)]"
    by (simp add: state_vector_concat)
  have ld: "length (map f32 ?d) = 3"
    using wf by (simp add: wf_env_def)
  have lr: "length (map f32 ?r) = 3"
    using wf by (simp add: wf_env_def vsub_length)
  have l: "length (map f32 (link6_pos (p e))) = 3" "length (map f32 (goal e)) = 3"
    "length (map f32 [joint7 (p e), joint9 (p e)]) = 2"
    "length (map f32 (goalPosition (arm e))) = 3" "length (map f32 (link6_vel (p e))) = 3"
    using wf by (simp_all add: wf_env_def)
  note lay = layout_22 [OF l(1) l(2) l(3) ld lr l(4) l(5)]
  show ?thesis
    unfolding get_state_def sv using lay by blast
qed

text \<open>
  Claim C1. In every state \<^verbatim>\<open>state_vector\<close> is called on, \<^verbatim>\<open>state_vector\<close> (and so
  \<^verbatim>\<open>get_state\<close>) returns 22 numbers in the order gripper position (3), goal (3), gripper
  joint positions (2), object position (3), object relative to gripper (3), the arm's
  goal position (3), the arm's goal gripper value (1), gripper linear velocity (3),
  grasping flag (1), each cast to float32; without an object the two object fields are
  zero vectors. Neither the observation type nor a randomization switch is read.
\<close>

theorem state_vector_layout:
  "wf_env e \<Longrightarrow>
   length (state_vector f32 e) = 22 \<and> get_state f32 e = state_vector f32 e \<and>
   slice 0 3 (state_vector f32 e) = map f32 (link6_pos (p e)) \<and>
   slice 3 6 (state_vector f32 e) = map f32 (goal e) \<and>
   slice 6 8 (state_vector f32 e) = map f32 [joint7 (p e), joint9 (p e)] \<and>
   slice 8 11 (state_vector f32 e) =
     map f32 (if has_object (cfg e) then bodies (p e) ! body e else [0, 0, 0]) \<and>
   slice 11 14 (state_vector f32 e) =
     map f32 (if has_object (cfg e) then vsub (bodies (p e) ! body e) (link6_pos (p e))
              else [0, 0, 0]) \<and>
   slice 14 17 (state_vector f32 e) = map f32 (goalPosition (arm e)) \<and>
   state_vector f32 e ! 17 = f32 (goalGripper (arm e)) \<and>
   slice 18 21 (state_vector f32 e) = map f32 (link6_vel (p e)) \<and>
   state_vector f32 e ! 21 = f32 (if is_grasping (arm e) then 1 else 0)"
  by (rule state_vector_fields)

theorem state_vector_layout_witness:
  "wf_env env1 \<and> length (state_vector (\<lambda>v. v) env1) = 22 \<and>
   state_vector (\<lambda>v. v) env1 =
     [0, 0, 0.5, - 0.4, 0.2, 0.3, 0, 0, - 0.275, - 0.125, 0.06, - 0.275, - 0.125, - 0.44,
      0, 0, 0.5, 0, 0, 0, 0, 0]"
proof -
  have wf1: "wf_env env1"
    by (simp add: wf_env_def env1_def env0_def phys0_def arm0_def default_config_def
        bodies1_def)
  have "state_vector (\<lambda>v. v) env1 =
     [0, 0, 0.5, - 0.4, 0.2, 0.3, 0, 0, - 0.275, - 0.125, 0.06, - 0.275, - 0.125, - 0.44,
      0, 0, 0.5, 0, 0, 0, 0, 0]"
    by (simp add: state_vector_def env1_def env0_def phys0_def arm0_def default_config_def
        vsub_def bodies1_def)
  then show ?thesis
    using wf1 state_vector_layout [OF wf1, of "\<lambda>v. v"] by simp
qed

subsection \<open>The depth observation\<close>

text \<open>
  In observation mode "pixels\_depth" \<^verbatim>\<open>_get_obs\<close> never returns: a rendered image of
  another shape fails the assertion, and one of shape (84, 84, 3) has no channel 3.
\<close>

lemma get_obs_pixels_depth_never_returns:
  "observation_type (cfg e) = ''pixels_depth'' \<Longrightarrow>
   get_obs f32 render e = Inl AssertionError \<or> get_obs f32 render e = Inl IndexError"
  by (simp add: get_obs_def Let_def channel_def)

text \<open>
  Claim C7 says that in mode "pixels\_depth" the observation is a depth channel taken
  within the bounds of the validated 84 x 84 x 3 image. The code reads channel 3 of an
  image whose last axis has size 3: on a black 84 x 84 x 3 image \<^verbatim>\<open>_get_obs\<close>
  raises IndexError.
\<close>

theorem get_obs_pixels_depth_raises:
  "get_obs (\<lambda>v. v) (\<lambda>e. \<lparr>shape = [84, 84, 3], buf = replicate (84 * 84 * 3) 0\<rparr>)
     (env1\<lparr>cfg := default_config\<lparr>observation_type := ''pixels_depth''\<rparr>\<rparr>)
   = Inl IndexError"
  by (simp add: get_obs_def Let_def channel_def default_config_def)

subsection \<open>The arm's spawn position\<close>

text \<open>
  With arm randomization the call is \<^verbatim>\<open>np.clip([0, 0, 0.03], [0, 0, 0.07], draw)\<close>: the
  normal draw stands where the upper bound belongs, so each component is the smaller of
  the draw and of 0, 0 and 0.07.
\<close>

lemma spawn_pos_randomized:
  "randomizeArm c \<Longrightarrow>
   spawn_pos x c = [min (0.02 * arm_noise x 0) 0, min (0.02 * arm_noise x 1) 0,
                    min (0.05 + 0.02 * arm_noise x 2) 0.07]"
  by (simp add: spawn_pos_def np_clip_def normal_def numeral_2_eq_2)

text \<open>
  Claim C9 says that with arm randomization the spawn position has x = 0, y = 0 and z in
  [0.03, 0.07]. With the standard normal samples (-1, -1, -2) the draw is
  (-0.02, -0.02, 0.01) and the code spawns the arm exactly there.
\<close>

theorem spawn_pos_outside_clip_range:
  "spawn_pos (ext0\<lparr>arm_noise := (\<lambda>k. if k = 2 then - 2 else - 1)\<rparr>)
     (default_config\<lparr>randomizeArm := True\<rparr>) = [- 0.02, - 0.02, 0.01]"
  by (simp add: spawn_pos_def np_clip_def normal_def default_config_def ext0_def)

subsection \<open>The rejection loop\<close>

lemma uniform_length: "length (uniform u i low high) = 3"
  by (simp add: uniform_def)

lemma sample_goal_length: "length (fst (sample_goal x c i)) = 3"
  by (simp add: sample_goal_def normal_def uniform_def Let_def)

lemma resample_result:
  assumes run: "resample u high h g obj i = Some (Inr (obj', i'))"
  shows "(\<exists>d. goal_distance obj' g = Inr d \<and> \<not> d < 0.1) \<and>
         (obj' = obj \<or> (\<exists>j. obj' = (uniform u j table_low high)[2 := h]))"
proof -
  have "\<forall>obj'' i''. (Inr (obj', i') :: error + vec \<times> nat) = Inr (obj'', i'') \<longrightarrow>
      (\<exists>d. goal_distance obj'' g = Inr d \<and> \<not> d < 0.1) \<and>
      (obj'' = obj \<or> (\<exists>j. obj'' = (uniform u j table_low high)[2 := h]))"
  proof (rule resample.raw_induct
      [where P = "\<lambda>u high h g obj (i::nat) r. \<forall>obj'' i''. r = Inr (obj'', i''::nat) \<longrightarrow>
            (\<exists>d. goal_distance obj'' g = Inr d \<and> \<not> d < 0.1) \<and>
            (obj'' = obj \<or> (\<exists>j. obj'' = (uniform u j table_low high)[2 := h]))"
        and i = i],
      goal_cases)
    case (1 res u high h g obj_pos i r)
    show ?case
    proof (cases "goal_distance obj_pos g")
      case (Inl err)
      then show ?thesis
        using 1(2) by auto
    next
      case (Inr d)
      show ?thesis
      proof (cases "d < 1 / 10")
        case True
        then have "res u high h g ((uniform u i table_low high)[2 := h]) (i + 3) = Some r"
          using 1(2) Inr by simp
        from 1(1) [OF this] show ?thesis
          by blast
      next
        case False
        then have "r = Inr (obj_pos, i)"
          using 1(2) Inr by simp
        then show ?thesis
          using Inr False by simp
      qed
    qed
  next
    case 2
    show ?case
      by (rule run)
  qed
  then show ?thesis
    by simp
qed

text \<open>The loop ends as soon as one of the coming draws is far enough from the goal.\<close>

lemma resample_terminates:
  "length g = 3 \<Longrightarrow> length obj = 3 \<Longrightarrow>
   \<not> linalg_norm (vsub ((uniform u (i + 3 * k) table_low high)[2 := h]) g) < 0.1 \<Longrightarrow>
   \<exists>obj' i'. resample u high h g obj i = Some (Inr (obj', i'))"
proof (induction k arbitrary: obj i)
  case 0
  let ?c = "(uniform u i table_low high)[2 := h]"
  have c: "resample u high h g ?c (i + 3) = Some (Inr (?c, i + 3))"
    using 0 by (subst resample.simps) (simp add: goal_distance_def uniform_length)
  show ?case
  proof (cases "linalg_norm (vsub obj g) < 0.1")
    case True
    then have "resample u high h g obj i = resample u high h g ?c (i + 3)"
      using 0 by (subst resample.simps) (simp add: goal_distance_def)
    then show ?thesis
      using c by simp
  next
    case False
    then have "resample u high h g obj i = Some (Inr (obj, i))"
      using 0 by (subst resample.simps) (simp add: goal_distance_def)
    then show ?thesis
      by simp
  qed
next
  case (Suc k)
  let ?c = "(uniform u i table_low high)[2 := h]"
  have far: "\<not> linalg_norm (vsub ((uniform u (i + 3 + 3 * k) table_low high)[2 := h]) g) < 0.1"
    using Suc.prems(3) by (simp add: add.assoc)
  have lc: "length ?c = 3"
    by (simp add: uniform_length)
  from Suc.IH [OF Suc.prems(1) lc far]
  obtain obj' i' where c: "resample u high h g ?c (i + 3) = Some (Inr (obj', i'))"
    by blast
  show ?case
  proof (cases "linalg_norm (vsub obj g) < 0.1")
    case True
    then have "resample u high h g obj i = resample u high h g ?c (i + 3)"
      using Suc.prems by (subst resample.simps) (simp add: goal_distance_def)
    then show ?thesis
      using c by simp
  next
    case False
    then have "resample u high h g obj i = Some (Inr (obj, i))"
      using Suc.prems by (subst resample.simps) (simp add: goal_distance_def)
    then show ?thesis
      by simp
  qed
qed

lemma resample_no_error:
  assumes run: "resample u high h g obj i = Some r"
    and len: "length g = 3" "length obj = 3"
  shows "\<exists>v. r = Inr v"
proof -
  have step: "length g = 3 \<longrightarrow> length obj_pos = 3 \<longrightarrow> (\<exists>v. r = Inr v)"
    if ih: "\<And>high h g obj_pos i r. res u high h g obj_pos i = Some r \<Longrightarrow>
              length g = 3 \<longrightarrow> length obj_pos = 3 \<longrightarrow> (\<exists>v. r = Inr v)"
      and eq: "(case goal_distance obj_pos g of
                  Inl err \<Rightarrow> Some (Inl err)
                | Inr d \<Rightarrow>
                    if d < 1 / 10
                    then res u high h g ((uniform u i table_low high)[2 := h]) (i + 3)
                    else Some (Inr (obj_pos, i))) = Some r"
    for res u high h g obj_pos i r
  proof (intro impI)
    assume l: "length g = 3" "length obj_pos = 3"
    then have gd: "goal_distance obj_pos g = Inr (linalg_norm (vsub obj_pos g))"
      by (simp add: goal_distance_def)
    show "\<exists>v. r = Inr v"
    proof (cases "linalg_norm (vsub obj_pos g) < 1 / 10")
      case True
      then have "res u high h g ((uniform u i table_low high)[2 := h]) (i + 3) = Some r"
        using eq gd by simp
      from ih [OF this] show ?thesis
        using l by (simp add: uniform_length)
    next
      case False
      then show ?thesis
        using eq gd by auto
    qed
  qed
  have "length g = 3 \<longrightarrow> length obj = 3 \<longrightarrow> (\<exists>v. r = Inr v)"
    by (rule resample.raw_induct
        [where P = "\<lambda>u high h g obj i r. length g = 3 \<longrightarrow> length obj = 3 \<longrightarrow> (\<exists>v. r = Inr v)",
          OF step run])
  then show ?thesis
    using len by simp
qed


subsection \<open>The second half of a reset\<close>

lemma build_scene_frame:
  "goal (snd (build_scene x e obj ag sg sf)) = goal e"
  "cfg (snd (build_scene x e obj ag sg sf)) = cfg e"
  "np_random_pos (snd (build_scene x e obj ag sg sf)) = np_random_pos e"
  by (simp_all add: build_scene_def Let_def split_beta split: option.splits)

lemma build_scene_object:
  "has_object (cfg e) \<Longrightarrow> originalObjPosition (snd (build_scene x e obj ag sg sf)) = obj"
  by (simp add: build_scene_def Let_def split_beta split: option.splits)

lemma build_scene_body:
  "has_object (cfg e) \<Longrightarrow> sf = None \<or> sf = Some [] \<Longrightarrow>
   bodies (p (snd (build_scene x e obj ag sg sf))) ! body (snd (build_scene x e obj ag sg sf)) = obj"
  by (auto simp add: build_scene_def Let_def split_beta createMultiBody_def split: option.splits)

lemma build_scene_no_file:
  "sf = None \<or> sf = Some [] \<Longrightarrow> fst (build_scene x e obj ag sg sf)"
  by (auto simp add: build_scene_def Let_def split_beta)

text \<open>
  With a file name the result is decided by \<^verbatim>\<open>restoreState\<close> in the engine state the
  scene was built to.
\<close>

lemma build_scene_restore_fails:
  "fn \<noteq> [] \<Longrightarrow> restoreState x fn (p (placed x e obj sg)) = None \<Longrightarrow>
   \<not> fst (build_scene x e obj ag sg (Some fn)) \<and>
   stdout (snd (build_scene x e obj ag sg (Some fn))) = stdout e @ [''Warning: state reset failed'']"
  by (cases "has_object (cfg e)")
    (simp_all add: build_scene_def placed_def Let_def split_beta)

lemma build_scene_restore_succeeds:
  "fn \<noteq> [] \<Longrightarrow> restoreState x fn (p (placed x e obj sg)) \<noteq> None \<Longrightarrow>
   fst (build_scene x e obj ag sg (Some fn))"
  by (cases "has_object (cfg e)")
    (auto simp add: build_scene_def placed_def Let_def split_beta)

subsection \<open>Sampling a scene\<close>

lemma sample_scene_result:
  assumes "sample_scene x e = Some (Inr (g, obj, i))"
  shows "g = fst (sample_goal x (cfg e) (np_random_pos e)) \<and>
         (\<exists>d. goal_distance obj g = Inr d \<and> \<not> d < 0.1) \<and>
         (\<exists>j. obj = (uniform (np_random x) j table_low
                      (if fixed_goal (cfg e) then table_high[1 := 0.0] else table_high))
                    [2 := height_offset (cfg e)])"
proof -
  let ?high = "if fixed_goal (cfg e) then table_high[1 := 0.0] else table_high"
  let ?g = "fst (sample_goal x (cfg e) (np_random_pos e))"
  let ?i1 = "snd (sample_goal x (cfg e) (np_random_pos e))"
  let ?obj0 = "(uniform (np_random x) ?i1 table_low ?high)[2 := height_offset (cfg e)]"
  have run: "resample (np_random x) ?high (height_offset (cfg e)) ?g ?obj0 (?i1 + 3)
               = Some (Inr (obj, i))" and g: "g = ?g"
    using assms
    by (auto simp add: sample_scene_def Let_def split_beta split: option.splits sum.splits)
  from resample_result [OF run] show ?thesis
    using g by blast
qed

lemma sample_scene_terminates:
  assumes "\<not> linalg_norm (vsub (draw x e k) (fst (sample_goal x (cfg e) (np_random_pos e)))) < 0.1"
  shows "\<exists>g obj i. sample_scene x e = Some (Inr (g, obj, i))"
proof -
  let ?high = "if fixed_goal (cfg e) then table_high[1 := 0.0] else table_high"
  let ?g = "fst (sample_goal x (cfg e) (np_random_pos e))"
  let ?i1 = "snd (sample_goal x (cfg e) (np_random_pos e))"
  let ?h = "height_offset (cfg e)"
  let ?obj0 = "(uniform (np_random x) ?i1 table_low ?high)[2 := ?h]"
  have lg: "length ?g = 3"
    by (rule sample_goal_length)
  have lo: "length ?obj0 = 3"
    by (simp add: uniform_length)
  have "\<exists>obj i. resample (np_random x) ?high ?h ?g ?obj0 (?i1 + 3) = Some (Inr (obj, i))"
  proof (cases k)
    case 0
    then have "\<not> linalg_norm (vsub ?obj0 ?g) < 0.1"
      using assms by (simp add: draw_def Let_def)
    then have "resample (np_random x) ?high ?h ?g ?obj0 (?i1 + 3) = Some (Inr (?obj0, ?i1 + 3))"
      using lg lo by (subst resample.simps) (simp add: goal_distance_def)
    then show ?thesis
      by blast
  next
    case (Suc k')
    then have "\<not> linalg_norm
        (vsub ((uniform (np_random x) (?i1 + 3 + 3 * k') table_low ?high)[2 := ?h]) ?g) < 0.1"
      using assms by (simp add: draw_def Let_def add.assoc)
    from resample_terminates [OF lg lo this] show ?thesis .
  qed
  then show ?thesis
    by (auto simp add: sample_scene_def Let_def split_beta)
qed

subsection \<open>A whole reset\<close>

lemma reset_sim_sampled:
  "reset_sim x e None sf = Some (Inr (ok, e')) \<Longrightarrow>
   \<exists>g obj i. sample_scene x e = Some (Inr (g, obj, i)) \<and>
     (ok, e') = build_scene x (e\<lparr>goal := g, np_random_pos := i\<rparr>) obj None 0 sf"
  by (auto simp add: reset_sim_def split: option.splits sum.splits)

lemma reset_sim_returns:
  "sample_scene x e = Some (Inr (g, obj, i)) \<Longrightarrow>
   reset_sim x e None sf =
     Some (Inr (build_scene x (e\<lparr>goal := g, np_random_pos := i\<rparr>) obj None 0 sf))"
  by (simp add: reset_sim_def)

lemma reset_sim_explicit:
  "length st = 22 \<Longrightarrow>
   reset_sim x e (Some st) sf =
     Some (Inr (build_scene x (e\<lparr>goal := slice 3 6 st\<rparr>) (slice 8 11 st)
                  (Some (slice 14 17 st, st ! 17)) (st ! 21) sf))"
  by (simp add: reset_sim_def)

text \<open>Every reset that returns leaves a 3-vector as the goal.\<close>

lemma reset_sim_goal_length:
  assumes run: "reset_sim x e state sf = Some (Inr (ok, e'))"
  shows "length (goal e') = 3"
proof (cases state)
  case None
  with run reset_sim_sampled obtain g obj i where
    s: "sample_scene x e = Some (Inr (g, obj, i))" and
    b: "(ok, e') = build_scene x (e\<lparr>goal := g, np_random_pos := i\<rparr>) obj None 0 sf"
    by blast
  from b have "e' = snd (build_scene x (e\<lparr>goal := g, np_random_pos := i\<rparr>) obj None 0 sf)"
    by (metis snd_conv)
  then have "goal e' = g"
    by (simp add: build_scene_frame)
  then show ?thesis
    using sample_scene_result [OF s] sample_goal_length by simp
next
  case (Some st)
  with run have len: "length st = 22"
    by (simp add: reset_sim_def split: if_splits)
  with run Some have "e' = snd (build_scene x (e\<lparr>goal := slice 3 6 st\<rparr>) (slice 8 11 st)
      (Some (slice 14 17 st, st ! 17)) (st ! 21) sf)"
    by (simp add: reset_sim_explicit)
  then have "goal e' = slice 3 6 st"
    by (simp add: build_scene_frame)
  then show ?thesis
    using len by (simp add: slice_def)
qed

text \<open>The second half of a reset reads neither generator that samples goals and objects.\<close>

lemma build_scene_ignores_sampling:
  "build_scene (x\<lparr>np_random := u, goal_noise := z\<rparr>) e obj ag sg sf = build_scene x e obj ag sg sf"
  by (simp add: build_scene_def init_arm_def spawn_pos_def Let_def split_beta
      cong del: if_weak_cong option.case_cong_weak)

text \<open>Box coordinates of a draw: x in [-0.35, -0.2), y in [-0.25, 0.25) or [-0.25, 0).\<close>

lemma uniform_box:
  "(uniform u j table_low (if fg then table_high[1 := 0.0] else table_high))[2 := h] =
     [- 0.35 + 0.15 * u j, - 0.25 + (if fg then 0.25 else 0.5) * u (j + 1), h]"
  by (simp add: uniform_def table_low_def table_high_def)

text \<open>Two sampling runs: one that rejects its first draw, one that keeps it.\<close>

lemma sample_scene_ext1:
  "sample_scene ext1 env2 = Some (Inr ([- 0.275, 0, 0.03], [- 0.215, 0.2, 0.06], 9))"
proof -
  have g: "sample_goal ext1 (cfg env2) (np_random_pos env2) = ([- 0.275, 0, 0.03], 3)"
    by (simp add: sample_goal_def ext1_def ext0_def env2_def env0_def default_config_def
        uniform_def table_low_def table_high_def Let_def)
  have loop: "resample (np_random ext1) table_high 0.06 [- 0.275, 0, 0.03] [- 0.275, 0, 0.06] 6
      = Some (Inr ([- 0.215, 0.2, 0.06], 9))"
    apply (subst resample.simps)
    apply (simp add: goal_distance_def vsub_def linalg_norm_less_iff
        linalg_norm_times_less_iff power2_eq_square)
    apply (subst resample.simps)
    apply (simp add: goal_distance_def vsub_def linalg_norm_less_iff
        linalg_norm_times_less_iff power2_eq_square uniform_def ext1_def ext0_def
        table_low_def table_high_def)
    done
  have obj0: "(uniform (np_random ext1) 3 table_low table_high)[2 := 0.06] = [- 0.275, 0, 0.06]"
    by (simp add: uniform_def ext1_def ext0_def table_low_def table_high_def)
  show ?thesis
    using g loop obj0
    by (simp add: sample_scene_def Let_def env2_def env0_def default_config_def)
qed

lemma sample_scene_ext0:
  "\<not> linalg_norm (vsub [- 0.275, - 0.125, h] [- 0.4, 0.2, 0.3]) < 0.1 \<Longrightarrow>
   sample_scene ext0 (env0\<lparr>cfg := default_config\<lparr>height_offset := h\<rparr>\<rparr>)
     = Some (Inr ([- 0.4, 0.2, 0.3], [- 0.275, - 0.125, h], 3))"
proof -
  assume far: "\<not> linalg_norm (vsub [- 0.275, - 0.125, h] [- 0.4, 0.2, 0.3]) < 0.1"
  let ?e = "env0\<lparr>cfg := default_config\<lparr>height_offset := h\<rparr>\<rparr>"
  have g: "sample_goal ext0 (cfg ?e) (np_random_pos ?e) = ([- 0.4, 0.2, 0.3], 0)"
    by (simp add: sample_goal_def env0_def default_config_def)
  have obj0: "(uniform (np_random ext0) 0 table_low (table_high[1 := 0.0]))[2 := h]
      = [- 0.275, - 0.125, h]"
    by (simp add: uniform_def ext0_def table_low_def table_high_def)
  have loop: "resample (np_random ext0) (table_high[1 := 0.0]) h [- 0.4, 0.2, 0.3]
      [- 0.275, - 0.125, h] 3 = Some (Inr ([- 0.275, - 0.125, h], 3))"
    using far by (subst resample.simps) (simp add: goal_distance_def)
  show ?thesis
    using g loop obj0
    by (simp add: sample_scene_def Let_def env0_def default_config_def)
qed

subsection \<open>Distance between the sampled object and the goal\<close>

text \<open>
  Claim C3. A reset that samples the scene (no explicit state) and returns has left the
  rejection loop with an object position at Euclidean distance at least 0.1 from the
  sampled goal: \<^verbatim>\<open>goal_distance(obj_pos, goal) >= 0.1\<close> for the position the object is
  created at.
\<close>

theorem reset_sim_object_far_from_goal:
  "reset_sim x e None state_file = Some (Inr (ok, e')) \<Longrightarrow> has_object (cfg e) \<Longrightarrow>
   \<exists>d. goal_distance (originalObjPosition e') (goal e') = Inr d \<and> 0.1 \<le> d"
proof -
  assume run: "reset_sim x e None state_file = Some (Inr (ok, e'))" and ob: "has_object (cfg e)"
  from reset_sim_sampled [OF run] obtain g obj i where
    s: "sample_scene x e = Some (Inr (g, obj, i))" and
    b: "(ok, e') = build_scene x (e\<lparr>goal := g, np_random_pos := i\<rparr>) obj None 0 state_file"
    by blast
  from b have e': "e' = snd (build_scene x (e\<lparr>goal := g, np_random_pos := i\<rparr>) obj None 0 state_file)"
    by (metis snd_conv)
  have "goal e' = g"
    unfolding e' by (simp add: build_scene_frame)
  moreover have "originalObjPosition e' = obj"
    unfolding e' using ob by (simp add: build_scene_object)
  moreover obtain d where "goal_distance obj g = Inr d" "\<not> d < 0.1"
    using sample_scene_result [OF s] by blast
  ultimately show ?thesis
    by auto
qed

text \<open>
  On the table with the generator \<open>ext1\<close>: the goal is (-0.275, 0, 0.03), the first
  object draw (-0.275, 0, 0.06) is 0.03 away and rejected, the second is kept.
\<close>

theorem reset_sim_object_far_from_goal_witness:
  "has_object (cfg env2) \<and>
   spawned (reset_sim ext1 env2 None None) = Some [- 0.215, 0.2, 0.06] \<and>
   (\<exists>d. goal_distance [- 0.215, 0.2, 0.06] [- 0.275, 0, 0.03] = Inr d \<and> 0.1 \<le> d)"
proof -
  let ?b = "build_scene ext1 (env2\<lparr>goal := [- 0.275, 0, 0.03], np_random_pos := 9\<rparr>)
              [- 0.215, 0.2, 0.06] None 0 None"
  have ob: "has_object (cfg env2)"
    by (simp add: env2_def env0_def default_config_def)
  have run: "reset_sim ext1 env2 None None = Some (Inr (fst ?b, snd ?b))"
    by (simp add: reset_sim_def sample_scene_ext1)
  have o: "originalObjPosition (snd ?b) = [- 0.215, 0.2, 0.06]"
    using ob by (simp add: build_scene_object)
  have g: "goal (snd ?b) = [- 0.275, 0, 0.03]"
    by (simp add: build_scene_frame)
  show ?thesis
    using reset_sim_object_far_from_goal [OF run ob] ob run o g
    by (simp add: spawned_def split_beta)
qed

subsection \<open>Where the sampled object lies\<close>

text \<open>
  Claim C8 says that every coordinate of the sampled spawn position lies within the table
  bounds, whatever the height offset. With a height offset of 0.3 the object is created
  at height 0.3, above the table's upper bound 0.2.
\<close>

theorem spawn_height_counterexample:
  "spawned (reset_sim ext0 (env0\<lparr>cfg := default_config\<lparr>height_offset := 0.3\<rparr>\<rparr>) None None)
     = Some [- 0.275, - 0.125, 0.3] \<and>
   \<not> [- 0.275, - 0.125, 0.3 :: real] ! 2 \<le> table_high ! 2"
proof -
  let ?e = "env0\<lparr>cfg := default_config\<lparr>height_offset := 0.3\<rparr>\<rparr>"
  have ob: "has_object (cfg (?e\<lparr>goal := [- 0.4, 0.2, 0.3], np_random_pos := 3\<rparr>))"
    by (simp add: env0_def default_config_def)
  have far: "\<not> linalg_norm (vsub [- 0.275, - 0.125, 0.3] [- 0.4, 0.2, 0.3]) < 0.1"
    by (simp add: vsub_def linalg_norm_less_iff linalg_norm_times_less_iff power2_eq_square)
  show ?thesis
    using build_scene_object [OF ob, of ext0 "[- 0.275, - 0.125, 0.3]" None 0 None]
    by (simp add: spawned_def reset_sim_def sample_scene_ext0 [OF far] split_beta
        table_high_def)
qed

text \<open>
  Claim C8, amended. For a reset without an explicit state, with unit samples in [0, 1)
  of which one draw is accepted, the reset returns and the object's spawn position has
  x = -0.35 + 0.15 u in [-0.35, -0.2) and y = -0.25 + w u' with u, u' consecutive unit
  samples, where w = 0.5 and y lies in [-0.25, 0.25) without the fixed-goal flag, and
  w = 0.25 and y lies in [-0.25, 0) with it; z is not drawn: it is the configured
  height offset.
\<close>

theorem reset_sim_object_position:
  assumes unit: "\<forall>k. 0 \<le> np_random x k \<and> np_random x k < 1"
    and ob: "has_object (cfg e)"
    and acc: "\<not> linalg_norm
        (vsub (draw x e k) (fst (sample_goal x (cfg e) (np_random_pos e)))) < 0.1"
  shows "\<exists>ok e' j. reset_sim x e None state_file = Some (Inr (ok, e')) \<and>
     originalObjPosition e' =
       [- 0.35 + 0.15 * np_random x j,
        - 0.25 + (if fixed_goal (cfg e) then 0.25 else 0.5) * np_random x (j + 1),
        height_offset (cfg e)] \<and>
     - 0.35 \<le> originalObjPosition e' ! 0 \<and> originalObjPosition e' ! 0 < - 0.2 \<and>
     - 0.25 \<le> originalObjPosition e' ! 1 \<and>
     originalObjPosition e' ! 1 < (if fixed_goal (cfg e) then 0 else 0.25) \<and>
     originalObjPosition e' ! 2 = height_offset (cfg e)"
proof -
  from sample_scene_terminates [OF acc] obtain g obj i where
    s: "sample_scene x e = Some (Inr (g, obj, i))"
    by blast
  let ?b = "build_scene x (e\<lparr>goal := g, np_random_pos := i\<rparr>) obj None 0 state_file"
  have run: "reset_sim x e None state_file = Some (Inr (fst ?b, snd ?b))"
    using reset_sim_returns [OF s] by simp
  have o: "originalObjPosition (snd ?b) = obj"
    using ob by (simp add: build_scene_object)
  from sample_scene_result [OF s] obtain j where
    "obj = (uniform (np_random x) j table_low
              (if fixed_goal (cfg e) then table_high[1 := 0.0] else table_high))
           [2 := height_offset (cfg e)]"
    by blast
  then have obj: "obj = [- 0.35 + 0.15 * np_random x j,
      - 0.25 + (if fixed_goal (cfg e) then 0.25 else 0.5) * np_random x (j + 1),
      height_offset (cfg e)]"
    by (simp only: uniform_box)
  have u0: "0 \<le> np_random x j" "np_random x j < 1"
    and u1: "0 \<le> np_random x (j + 1)" "np_random x (j + 1) < 1"
    using unit by simp_all
  have b0: "- 0.35 \<le> obj ! 0 \<and> obj ! 0 < - 0.2"
    using u0 by (simp add: obj)
  have b1: "- 0.25 \<le> obj ! 1 \<and> obj ! 1 < (if fixed_goal (cfg e) then 0 else 0.25)"
    using u1 by (simp add: obj)
  have b2: "obj ! 2 = height_offset (cfg e)"
    by (simp add: obj)
  show ?thesis
    using run o obj b0 b1 b2 by metis
qed

theorem reset_sim_object_position_witness:
  "(\<forall>k. 0 \<le> np_random ext0 k \<and> np_random ext0 k < 1) \<and> has_object (cfg env0) \<and>
   \<not> linalg_norm (vsub (draw ext0 env0 0)
        (fst (sample_goal ext0 (cfg env0) (np_random_pos env0)))) < 0.1 \<and>
   (\<exists>ok e' j. reset_sim ext0 env0 None None = Some (Inr (ok, e')) \<and>
      originalObjPosition e' = [- 0.35 + 0.15 * (1 / 2), - 0.25 + 0.25 * (1 / 2), 0.06])"
proof -
  have unit: "\<forall>k. 0 \<le> np_random ext0 k \<and> np_random ext0 k < 1"
    by (simp add: ext0_def)
  have ob: "has_object (cfg env0)"
    by (simp add: env0_def default_config_def)
  have acc: "\<not> linalg_norm (vsub (draw ext0 env0 0)
        (fst (sample_goal ext0 (cfg env0) (np_random_pos env0)))) < 0.1"
    by (simp add: draw_def sample_goal_def env0_def default_config_def ext0_def uniform_def
        table_low_def table_high_def vsub_def linalg_norm_less_iff
        linalg_norm_times_less_iff power2_eq_square)
  have c: "fixed_goal (cfg env0)" "height_offset (cfg env0) = 0.06"
    "\<And>j. np_random ext0 j = 1 / 2"
    by (simp_all add: env0_def default_config_def ext0_def)
  from reset_sim_object_position [OF unit ob acc, of None] obtain ok e' j where
    r: "reset_sim ext0 env0 None None = Some (Inr (ok, e'))" and
    o: "originalObjPosition e' =
       [- 0.35 + 0.15 * np_random ext0 j,
        - 0.25 + (if fixed_goal (cfg env0) then 0.25 else 0.5) * np_random ext0 (j + 1),
        height_offset (cfg env0)]"
    by blast
  have "originalObjPosition e' = [- 0.35 + 0.15 * (1 / 2), - 0.25 + 0.25 * (1 / 2), 0.06]"
    using o by (simp only: c if_True)
  then show ?thesis
    using unit ob acc r by blast
qed

subsection \<open>Reset from a state vector\<close>

text \<open>
  Claim C4. Passing the state vector of an environment back into reset as the explicit
  state returns an episode whose goal is the encoded goal field, that is the old goal
  cast to float32, and, with an object, whose object is created at the encoded object
  position, the old object position cast to float32; the position of the generator
  \<^verbatim>\<open>self.np_random\<close> is unchanged and the result does not depend on the samples of the
  goal sampler or of the rejection loop.
\<close>

theorem reset_from_state_vector:
  assumes wf: "wf_env e"
  shows "\<exists>ok e'. reset_sim x e (Some (state_vector f32 e)) state_file = Some (Inr (ok, e')) \<and>
     goal e' = slice 3 6 (state_vector f32 e) \<and> goal e' = map f32 (goal e) \<and>
     (has_object (cfg e) \<longrightarrow>
        originalObjPosition e' = slice 8 11 (state_vector f32 e) \<and>
        originalObjPosition e' = map f32 (bodies (p e) ! body e) \<and>
        (state_file = None \<longrightarrow> bodies (p e') ! body e' = map f32 (bodies (p e) ! body e))) \<and>
     np_random_pos e' = np_random_pos e \<and>
     reset_sim (x\<lparr>np_random := u, goal_noise := z\<rparr>) e (Some (state_vector f32 e)) state_file
       = reset_sim x e (Some (state_vector f32 e)) state_file"
proof -
  let ?st = "state_vector f32 e"
  let ?b = "build_scene x (e\<lparr>goal := slice 3 6 ?st\<rparr>) (slice 8 11 ?st)
              (Some (slice 14 17 ?st, ?st ! 17)) (?st ! 21) state_file"
  note lay = state_vector_fields [OF wf, of f32]
  have len: "length ?st = 22"
    using lay by blast
  have run: "reset_sim x e (Some ?st) state_file = Some (Inr (fst ?b, snd ?b))"
    using reset_sim_explicit [OF len] by simp
  have g: "goal (snd ?b) = slice 3 6 ?st"
    by (simp add: build_scene_frame)
  have g': "slice 3 6 ?st = map f32 (goal e)"
    using lay by blast
  have r: "np_random_pos (snd ?b) = np_random_pos e"
    by (simp add: build_scene_frame)
  have o: "originalObjPosition (snd ?b) = slice 8 11 ?st" if "has_object (cfg e)"
    using that by (simp add: build_scene_object)
  have o': "slice 8 11 ?st = map f32 (bodies (p e) ! body e)" if "has_object (cfg e)"
    using lay that by simp
  have bd: "bodies (p (snd ?b)) ! body (snd ?b) = slice 8 11 ?st"
    if "has_object (cfg e)" "state_file = None"
    using that by (simp add: build_scene_body)
  have ind: "reset_sim (x\<lparr>np_random := u, goal_noise := z\<rparr>) e (Some ?st) state_file
      = reset_sim x e (Some ?st) state_file"
    by (simp add: reset_sim_def build_scene_ignores_sampling)
  show ?thesis
    using run g g' r o o' bd ind by (intro exI [of _ "fst ?b"] exI [of _ "snd ?b"]) simp
qed

theorem reset_from_state_vector_witness:
  "wf_env env1 \<and>
   (\<exists>ok e'. reset_sim ext0 env1 (Some (state_vector (\<lambda>v. v) env1)) None = Some (Inr (ok, e')) \<and>
      goal e' = [- 0.4, 0.2, 0.3] \<and> originalObjPosition e' = [- 0.275, - 0.125, 0.06] \<and>
      np_random_pos e' = 0)"
proof -
  have wf1: "wf_env env1"
    by (simp add: wf_env_def env1_def env0_def phys0_def arm0_def default_config_def
        bodies1_def)
  have c: "has_object (cfg env1)" "map (\<lambda>v. v) (goal env1) = [- 0.4, 0.2, 0.3]"
    "map (\<lambda>v. v) (bodies (p env1) ! body env1) = [- 0.275, - 0.125, 0.06]"
    "np_random_pos env1 = 0"
    by (simp_all add: env1_def env0_def phys0_def default_config_def bodies1_def)
  from reset_from_state_vector [OF wf1, of ext0 "\<lambda>v. v" None] obtain ok e' where
    "reset_sim ext0 env1 (Some (state_vector (\<lambda>v. v) env1)) None = Some (Inr (ok, e'))"
    "goal e' = map (\<lambda>v. v) (goal env1)"
    "has_object (cfg env1) \<longrightarrow> originalObjPosition e' = map (\<lambda>v. v) (bodies (p env1) ! body env1)"
    "np_random_pos e' = np_random_pos env1"
    by blast
  then show ?thesis
    using wf1 c by (metis (no_types))
qed

subsection \<open>Snapshot restoration\<close>

text \<open>The scene \<open>ext2\<close> builds for an environment with an object has six bodies.\<close>

lemma placed_ext2_bodies:
  "has_object (cfg e) \<Longrightarrow> length (bodies (p (placed ext2 e obj sg))) = 6"
  by (simp add: placed_def ext2_def ext0_def init_arm_def init_env_def createMultiBody_def
      resetSimulation_def Let_def split_beta)

text \<open>
  Claim C6. A reset with a snapshot file whose restoration fails, in the engine state
  this reset has built, returns False after printing a warning, and raises nothing; a
  reset without a snapshot file (none, or an empty name) skips the restoration and
  returns True, and so does one whose restoration succeeds. All hold for an explicit
  state of 22 elements and for a sampling reset one of whose draws is accepted.
\<close>

theorem reset_sim_restore_failure:
  assumes sampled: "state = None \<longrightarrow>
      \<not> linalg_norm (vsub (draw x e k) (fst (sample_goal x (cfg e) (np_random_pos e)))) < 0.1"
    and explicit: "\<forall>st. state = Some st \<longrightarrow> length st = 22"
  shows "\<exists>ph. restore_point x e state = Some ph \<and>
           (fn \<noteq> [] \<and> restoreState x fn ph = None \<longrightarrow>
              (\<exists>e'. reset_sim x e state (Some fn) = Some (Inr (False, e')) \<and>
                    stdout e' = stdout e @ [''Warning: state reset failed''])) \<and>
           (fn \<noteq> [] \<and> restoreState x fn ph \<noteq> None \<longrightarrow>
              (\<exists>e'. reset_sim x e state (Some fn) = Some (Inr (True, e')))) \<and>
           (\<exists>e'. reset_sim x e state None = Some (Inr (True, e'))) \<and>
           (\<exists>e'. reset_sim x e state (Some []) = Some (Inr (True, e')))"
proof -
  obtain e1 obj ag sg where
    run: "\<And>sf. reset_sim x e state sf = Some (Inr (build_scene x e1 obj ag sg sf))"
    and pt: "restore_point x e state = Some (p (placed x e1 obj sg))"
    and out: "stdout e1 = stdout e"
  proof (cases state)
    case None
    with sampled sample_scene_terminates obtain g obj i where
      s: "sample_scene x e = Some (Inr (g, obj, i))"
      by blast
    then have "\<And>sf. reset_sim x e state sf =
        Some (Inr (build_scene x (e\<lparr>goal := g, np_random_pos := i\<rparr>) obj None 0 sf))"
      using None by (simp add: reset_sim_returns)
    moreover have "restore_point x e state =
        Some (p (placed x (e\<lparr>goal := g, np_random_pos := i\<rparr>) obj 0))"
      using None s by (simp add: restore_point_def)
    ultimately show ?thesis
      using that [of "e\<lparr>goal := g, np_random_pos := i\<rparr>" obj None 0] by simp
  next
    case (Some st)
    then have len: "length st = 22"
      using explicit by simp
    then have "\<And>sf. reset_sim x e state sf =
        Some (Inr (build_scene x (e\<lparr>goal := slice 3 6 st\<rparr>) (slice 8 11 st)
                     (Some (slice 14 17 st, st ! 17)) (st ! 21) sf))"
      using Some by (simp add: reset_sim_explicit)
    moreover have "restore_point x e state =
        Some (p (placed x (e\<lparr>goal := slice 3 6 st\<rparr>) (slice 8 11 st) (st ! 21)))"
      using Some len by (simp add: restore_point_def)
    ultimately show ?thesis
      using that [of "e\<lparr>goal := slice 3 6 st\<rparr>" "slice 8 11 st"
          "Some (slice 14 17 st, st ! 17)" "st ! 21"] by simp
  qed
  let ?ph = "p (placed x e1 obj sg)"
  have fail: "\<exists>e'. reset_sim x e state (Some fn) = Some (Inr (False, e')) \<and>
      stdout e' = stdout e @ [''Warning: state reset failed'']"
    if "fn \<noteq> []" "restoreState x fn ?ph = None"
  proof -
    from build_scene_restore_fails [OF that, of ag]
    have "fst (build_scene x e1 obj ag sg (Some fn)) = False"
      "stdout (snd (build_scene x e1 obj ag sg (Some fn)))
         = stdout e @ [''Warning: state reset failed'']"
      using out by simp_all
    then show ?thesis
      using run [of "Some fn"] by (metis prod.collapse)
  qed
  have succ: "\<exists>e'. reset_sim x e state (Some fn) = Some (Inr (True, e'))"
    if "fn \<noteq> []" "restoreState x fn ?ph \<noteq> None"
    using run [of "Some fn"] build_scene_restore_succeeds [OF that, of ag]
    by (metis prod.collapse)
  have ok1: "\<exists>e'. reset_sim x e state None = Some (Inr (True, e'))"
    using run [of None] build_scene_no_file [of None x e1 obj ag sg]
    by (metis prod.collapse)
  have ok2: "\<exists>e'. reset_sim x e state (Some []) = Some (Inr (True, e'))"
    using run [of "Some []"] build_scene_no_file [of "Some []" x e1 obj ag sg]
    by (metis prod.collapse)
  show ?thesis
  proof (intro exI [of _ ?ph] conjI impI)
    show "restore_point x e state = Some ?ph"
      by (rule pt)
    show "\<exists>e'. reset_sim x e state (Some fn) = Some (Inr (False, e')) \<and>
        stdout e' = stdout e @ [''Warning: state reset failed'']"
      if "fn \<noteq> [] \<and> restoreState x fn ?ph = None"
      using that fail by simp
    show "\<exists>e'. reset_sim x e state (Some fn) = Some (Inr (True, e'))"
      if "fn \<noteq> [] \<and> restoreState x fn ?ph \<noteq> None"
      using that succ by simp
    show "\<exists>e'. reset_sim x e state None = Some (Inr (True, e'))"
      by (rule ok1)
    show "\<exists>e'. reset_sim x e state (Some []) = Some (Inr (True, e'))"
      by (rule ok2)
  qed
qed

text \<open>
  The engine \<open>ext2\<close> restores a snapshot into the empty scene and fails in the scene
  of six bodies that the reset of \<open>env0\<close> builds: that reset returns False.
\<close>

theorem reset_sim_restore_failure_witness:
  "\<not> linalg_norm (vsub (draw ext2 env0 0)
        (fst (sample_goal ext2 (cfg env0) (np_random_pos env0)))) < 0.1 \<and>
   restoreState ext2 ''snapshot.bullet'' phys0 \<noteq> None \<and>
   (\<exists>e'. reset_sim ext2 env0 None (Some ''snapshot.bullet'') = Some (Inr (False, e')) \<and>
         stdout e' = [''Warning: state reset failed'']) \<and>
   (\<exists>e'. reset_sim ext2 env0 None None = Some (Inr (True, e')))"
proof -
  have acc: "None = None \<longrightarrow> \<not> linalg_norm (vsub (draw ext2 env0 0)
        (fst (sample_goal ext2 (cfg env0) (np_random_pos env0)))) < 0.1"
    by (simp add: draw_def sample_goal_def env0_def default_config_def ext2_def ext0_def
        uniform_def table_low_def table_high_def vsub_def linalg_norm_less_iff
        linalg_norm_times_less_iff power2_eq_square)
  have ex: "\<forall>st. (None :: vec option) = Some st \<longrightarrow> length st = 22"
    by simp
  have ob: "has_object (cfg env0)"
    by (simp add: env0_def default_config_def)
  from reset_sim_restore_failure [OF acc ex, of "''snapshot.bullet''"] obtain ph where
    pt: "restore_point ext2 env0 None = Some ph" and
    fail: "''snapshot.bullet'' \<noteq> [] \<and> restoreState ext2 ''snapshot.bullet'' ph = None \<longrightarrow>
      (\<exists>e'. reset_sim ext2 env0 None (Some ''snapshot.bullet'') = Some (Inr (False, e')) \<and>
            stdout e' = stdout env0 @ [''Warning: state reset failed''])" and
    ok: "\<exists>e'. reset_sim ext2 env0 None None = Some (Inr (True, e'))"
    by blast
  from pt obtain e1 obj sg where "ph = p (placed ext2 e1 obj sg)" "cfg e1 = cfg env0"
    by (auto simp add: restore_point_def split: option.splits sum.splits)
  then have "length (bodies ph) = 6"
    using ob by (simp add: placed_ext2_bodies)
  then have "restoreState ext2 ''snapshot.bullet'' ph = None"
    by (simp add: ext2_def)
  then have "\<exists>e'. reset_sim ext2 env0 None (Some ''snapshot.bullet'') = Some (Inr (False, e')) \<and>
      stdout e' = [''Warning: state reset failed'']"
    using fail by (simp add: env0_def)
  moreover have "restoreState ext2 ''snapshot.bullet'' phys0 \<noteq> None"
    by (simp add: ext2_def phys0_def)
  ultimately show ?thesis
    using acc ok by simp
qed

end
